theory Spec2Isabelle
  imports Main "HOL-Library.Word" "HOL-Library.Signed_Division"
begin

section \<open>The HIP hardware manager of AdaptiveCpp\<close>

text \<open>
  A shallow embedding of \<^verbatim>\<open>src/runtime/hip/hip_hardware_manager.cpp\<close>.
  C++ \<^verbatim>\<open>int\<close> is a 32-bit word read with \<open>sint\<close>, \<^verbatim>\<open>std::size_t\<close> a 64-bit word
  read with \<open>unat\<close>. Whatever ends a call without a value (a C++ exception, an
  operation the language leaves undefined, \<^verbatim>\<open>std::terminate\<close>) is a value of
  type \<open>failure\<close>, and a fallible function returns \<open>failure + 'a\<close>.
\<close>

type_synonym cpp_int = "32 word"
type_synonym size_t = "64 word"

datatype failure =
    invalid_argument    \<comment> \<open>\<^verbatim>\<open>std::invalid_argument\<close>, thrown by \<^verbatim>\<open>std::stoi\<close>\<close>
  | out_of_range        \<comment> \<open>\<^verbatim>\<open>std::out_of_range\<close>, thrown by \<^verbatim>\<open>std::stoi\<close>\<close>
  | division_by_zero    \<comment> \<open>integer division by zero (undefined, traps on x86)\<close>
  | signed_overflow     \<comment> \<open>overflow of \<^verbatim>\<open>int\<close> arithmetic (undefined)\<close>
  | terminate_called    \<comment> \<open>\<^verbatim>\<open>assert(false); std::terminate()\<close>\<close>

subsection \<open>The C++ library functions the parser calls\<close>

text \<open>\<^verbatim>\<open>std::string::find(str)\<close>: the first position at which \<open>p\<close> occurs in
  \<open>s\<close>; \<open>None\<close> is \<^verbatim>\<open>std::string::npos\<close>.\<close>

fun string_find :: "string \<Rightarrow> string \<Rightarrow> nat option" where
  "string_find [] p = (if p = [] then Some 0 else None)"
| "string_find (c # cs) p =
     (if take (length p) (c # cs) = p then Some 0
      else map_option Suc (string_find cs p))"

text \<open>\<^verbatim>\<open>std::isxdigit\<close> and \<^verbatim>\<open>std::isspace\<close> in the "C" locale.\<close>

definition isxdigit :: "char \<Rightarrow> bool" where
  "isxdigit c \<longleftrightarrow> c \<in> set ''0123456789abcdefABCDEF''"

definition isspace :: "char \<Rightarrow> bool" where
  "isspace c \<longleftrightarrow> c \<in> set [CHR '' '', CHR 0x09, CHR 0x0A, CHR 0x0B, CHR 0x0C, CHR 0x0D]"

definition xdigit_value :: "char \<Rightarrow> int" where
  "xdigit_value c =
     (let n = int (of_char c) in
      if 48 \<le> n \<and> n \<le> 57 then n - 48       \<comment> \<open>\<^verbatim>\<open>'0'\<close> to \<^verbatim>\<open>'9'\<close>\<close>
      else if 97 \<le> n \<and> n \<le> 102 then n - 87  \<comment> \<open>\<^verbatim>\<open>'a'\<close> to \<^verbatim>\<open>'f'\<close>\<close>
      else n - 55)                          \<comment> \<open>\<^verbatim>\<open>'A'\<close> to \<^verbatim>\<open>'F'\<close>\<close>"

text \<open>The value of a run of hexadecimal digits, most significant first.\<close>

fun hex_value :: "int \<Rightarrow> string \<Rightarrow> int" where
  "hex_value acc [] = acc"
| "hex_value acc (c # cs) = hex_value (acc * 16 + xdigit_value c) cs"

text \<open>
  \<^verbatim>\<open>std::stoi(str, nullptr, 16)\<close>, which the standard defines through
  \<^verbatim>\<open>strtol\<close>: leading white space is skipped, then an optional sign and an
  optional \<^verbatim>\<open>0x\<close> or \<^verbatim>\<open>0X\<close> are read, then the longest run of hexadecimal digits.
  With no digit it throws \<^verbatim>\<open>std::invalid_argument\<close>; with a value that is not an
  \<^verbatim>\<open>int\<close> it throws \<^verbatim>\<open>std::out_of_range\<close>.
\<close>

definition strip_sign :: "string \<Rightarrow> bool \<times> string" where
  "strip_sign s =
     (case s of
        c # cs \<Rightarrow> if c = CHR ''-'' then (True, cs)
                  else if c = CHR ''+'' then (False, cs)
                  else (False, s)
      | [] \<Rightarrow> (False, s))"

definition strip_0x :: "string \<Rightarrow> string" where
  "strip_0x s =
     (case s of
        z # x # d # ds \<Rightarrow>
          if z = CHR ''0'' \<and> (x = CHR ''x'' \<or> x = CHR ''X'') \<and> isxdigit d
          then d # ds else s
      | _ \<Rightarrow> s)"

definition stoi16 :: "string \<Rightarrow> failure + cpp_int" where
  "stoi16 str =
     (let (neg, body) = strip_sign (dropWhile isspace str);
          digits = takeWhile isxdigit (strip_0x body);
          v = (if neg then - hex_value 0 digits else hex_value 0 digits)
      in if digits = [] then Inl invalid_argument
         else if v < - (2 ^ 31) \<or> 2 ^ 31 - 1 < v then Inl out_of_range
         else Inr (word_of_int v))"

subsection \<open>\<^verbatim>\<open>device_arch_string_to_int\<close>\<close>

text \<open>The loop over \<^verbatim>\<open>substr\<close>: \<open>False\<close> is its early \<^verbatim>\<open>return 0\<close>.\<close>

fun all_xdigit :: "string \<Rightarrow> bool" where
  "all_xdigit [] = True"
| "all_xdigit (c # cs) = (if \<not> isxdigit c then False else all_xdigit cs)"

definition device_arch_string_to_int :: "string \<Rightarrow> failure + cpp_int" where
  "device_arch_string_to_int device_name =
     (let prefix = ''gfx'' in
      if string_find device_name prefix \<noteq> Some 0 then Inr 0
      else
        let substr = drop (length prefix) device_name;
            substr = (case string_find substr '':'' of
                        Some colon_pos \<Rightarrow> take colon_pos substr
                      | None \<Rightarrow> substr)
        in if \<not> all_xdigit substr then Inr 0
           else stoi16 substr)"

subsection \<open>The vendor runtime and the error channel\<close>

text \<open>
  The vendor headers are not part of the sources. Of \<^verbatim>\<open>hipError_t\<close> the code
  names \<^verbatim>\<open>hipSuccess\<close> and \<^verbatim>\<open>hipErrorNoDevice\<close>; every other status is
  \<open>hipErrorOther\<close> with its code. Of \<^verbatim>\<open>hipDeviceProp_t\<close> the record has the
  fields the code reads, with the types of the HIP runtime API (\<^verbatim>\<open>int\<close>,
  \<^verbatim>\<open>size_t\<close>, \<^verbatim>\<open>char[256]\<close> and \<^verbatim>\<open>int[3]\<close>).
\<close>

datatype hipError_t = hipSuccess | hipErrorNoDevice | hipErrorOther nat

datatype 'a array3 = Array3 'a 'a 'a

fun at3 :: "'a array3 \<Rightarrow> nat \<Rightarrow> 'a" where
  "at3 (Array3 a b c) k = (if k = 0 then a else if k = 1 then b else c)"

record hipDeviceProp_t =
  name :: string
  gcnArchName :: string
  totalGlobalMem :: size_t
  sharedMemPerBlock :: size_t
  totalConstMem :: size_t
  warpSize :: cpp_int
  maxThreadsPerBlock :: cpp_int
  maxThreadsDim :: "cpp_int array3"
  maxGridSize :: "cpp_int array3"
  clockRate :: cpp_int
  multiProcessorCount :: cpp_int
  l2CacheSize :: cpp_int
  concurrentKernels :: cpp_int

text \<open>\<^verbatim>\<open>std::make_unique<hipDeviceProp_t>()\<close> value-initialises the record.\<close>

definition zeroed_properties :: hipDeviceProp_t where
  "zeroed_properties =
     \<lparr> name = [], gcnArchName = [], totalGlobalMem = 0, sharedMemPerBlock = 0,
       totalConstMem = 0, warpSize = 0, maxThreadsPerBlock = 0,
       maxThreadsDim = Array3 0 0 0, maxGridSize = Array3 0 0 0, clockRate = 0,
       multiProcessorCount = 0, l2CacheSize = 0, concurrentKernels = 0 \<rparr>"

text \<open>
  What the vendor runtime answers: \<^verbatim>\<open>hipGetDeviceCount\<close> gives a status and the
  count it wrote; \<^verbatim>\<open>hipGetDeviceProperties\<close> gives, for a device, either a
  failure status (the record it was handed stays as it was) or the record it
  filled in; \<^verbatim>\<open>has_device_visibility_mask\<close> is the answer of the settings for
  this backend.
\<close>

record environment =
  has_device_visibility_mask :: bool
  hipGetDeviceCount :: "hipError_t \<times> cpp_int"
  hipGetDeviceProperties :: "int \<Rightarrow> hipError_t + hipDeviceProp_t"

text \<open>
  The shared error channel: \<^verbatim>\<open>print_warning\<close> and \<^verbatim>\<open>register_error\<close> each add
  one diagnostic, a message with the vendor status code when the code gives one.
\<close>

datatype diagnostic =
    Warning string "hipError_t option"
  | Error string "hipError_t option"

type_synonym error_channel = "diagnostic list"

definition print_warning :: "string \<Rightarrow> hipError_t option \<Rightarrow> error_channel \<Rightarrow> error_channel" where
  "print_warning msg code ch = ch @ [Warning msg code]"

definition register_error :: "string \<Rightarrow> hipError_t option \<Rightarrow> error_channel \<Rightarrow> error_channel" where
  "register_error msg code ch = ch @ [Error msg code]"

subsection \<open>Identifiers\<close>

text \<open>
  \<^verbatim>\<open>hardware_platform\<close>, \<^verbatim>\<open>api_platform\<close>, \<^verbatim>\<open>backend_descriptor\<close> and
  \<^verbatim>\<open>device_id\<close> are declared in headers outside the sources. The code names
  the enumerators \<open>rocm\<close> and \<open>hip\<close>; any other enumerator is given by its
  ordinal. The two records hold what their constructors are called with.
\<close>

datatype hardware_platform = rocm | other_hardware_platform nat
datatype api_platform = hip | other_api_platform nat

record backend_descriptor =
  hw_platform :: hardware_platform
  sw_platform :: api_platform

record device_id =
  backend :: backend_descriptor
  device_index :: cpp_int

text \<open>
  Modelled from the spec: the constructors of \<^verbatim>\<open>hip_allocator\<close> and
  \<^verbatim>\<open>hip_event_pool\<close> are not in the sources. They take (platform tag, API
  tag, device index) and (device index), and the objects are kept as what they
  were built from.
\<close>

record hip_allocator =
  allocator_backend :: backend_descriptor
  allocator_dev :: int

record hip_event_pool =
  event_pool_dev :: int

subsection \<open>The device context\<close>

text \<open>The members \<^verbatim>\<open>_dev\<close>, \<^verbatim>\<open>_properties\<close>, \<^verbatim>\<open>_allocator\<close>, \<^verbatim>\<open>_event_pool\<close> and
  \<^verbatim>\<open>_numeric_architecture\<close>.\<close>

record hip_hardware_context =
  ctx_dev :: int
  ctx_properties :: hipDeviceProp_t
  ctx_allocator :: hip_allocator
  ctx_event_pool :: hip_event_pool
  ctx_numeric_architecture :: cpp_int

definition get_device_arch :: "hipDeviceProp_t \<Rightarrow> string" where
  "get_device_arch props = gcnArchName props"

definition device_properties_message :: string where
  "device_properties_message = ''hip_hardware_manager: Could not query device properties ''"

text \<open>
  The constructor. It returns the error channel as it leaves it, and either
  the context or the exception that \<^verbatim>\<open>device_arch_string_to_int\<close> threw.
\<close>

definition hip_hardware_context_ctor ::
  "environment \<Rightarrow> int \<Rightarrow> error_channel \<Rightarrow> (failure + hip_hardware_context) \<times> error_channel" where
  "hip_hardware_context_ctor env dev ch =
     (let (props, ch) =
            (case hipGetDeviceProperties env dev of
               Inr filled \<Rightarrow> (filled, ch)
             | Inl err \<Rightarrow>
                 (zeroed_properties,
                  register_error device_properties_message (Some err) ch));
          allocator = \<lparr> allocator_backend = \<lparr> hw_platform = rocm, sw_platform = hip \<rparr>,
                        allocator_dev = dev \<rparr>;
          event_pool = \<lparr> event_pool_dev = dev \<rparr>
      in case device_arch_string_to_int (get_device_arch props) of
           Inl exn \<Rightarrow> (Inl exn, ch)
         | Inr arch \<Rightarrow>
             (Inr \<lparr> ctx_dev = dev, ctx_properties = props, ctx_allocator = allocator,
                    ctx_event_pool = event_pool, ctx_numeric_architecture = arch \<rparr>, ch))"

text \<open>
  \<^verbatim>\<open>_properties->concurrentKernels + 1\<close> is computed in \<^verbatim>\<open>int\<close> and converted
  to \<^verbatim>\<open>std::size_t\<close> (sign extension).
\<close>

definition get_max_kernel_concurrency :: "hip_hardware_context \<Rightarrow> failure + size_t" where
  "get_max_kernel_concurrency ctx =
     (let ck = concurrentKernels (ctx_properties ctx) in
      if sint ck + 1 > 2 ^ 31 - 1 then Inl signed_overflow
      else Inr (scast (ck + 1)))"

definition get_max_memcpy_concurrency :: "hip_hardware_context \<Rightarrow> failure + size_t" where
  "get_max_memcpy_concurrency ctx = get_max_kernel_concurrency ctx"

subsection \<open>The closed enumerations\<close>

text \<open>
  \<^verbatim>\<open>device_support_aspect\<close> and \<^verbatim>\<open>device_uint_property\<close> are declared in
  \<^verbatim>\<open>hipSYCL/runtime/hardware.hpp\<close>, outside the sources; their enumerators are
  the ones the two \<^verbatim>\<open>switch\<close> statements name. An object of a C++ enumeration
  type holds a value of the underlying integer type: \<open>Enumerator e\<close> is the
  value of the enumerator \<open>e\<close>, \<open>Unnamed n\<close> a value \<open>n\<close> that no enumerator
  has.
\<close>

datatype 'e enum_value = Enumerator 'e | Unnamed int

datatype device_support_aspect =
    emulated_local_memory
  | host_unified_memory
  | error_correction
  | global_mem_cache
  | global_mem_cache_read_only
  | global_mem_cache_read_write
  | images
  | little_endian
  | sub_group_independent_forward_progress
  | usm_device_allocations
  | usm_host_allocations
  | usm_atomic_host_allocations
  | usm_shared_allocations
  | usm_atomic_shared_allocations
  | usm_system_allocations
  | execution_timestamps
  | sscp_kernels
  | work_item_independent_forward_progress

datatype device_uint_property =
    max_compute_units
  | max_global_size0
  | max_global_size1
  | max_global_size2
  | max_group_size0
  | max_group_size1
  | max_group_size2
  | max_group_size
  | max_num_sub_groups
  | needs_dimension_flip
  | preferred_vector_width_char
  | preferred_vector_width_double
  | preferred_vector_width_float
  | preferred_vector_width_half
  | preferred_vector_width_int
  | preferred_vector_width_long
  | preferred_vector_width_short
  | native_vector_width_char
  | native_vector_width_double
  | native_vector_width_float
  | native_vector_width_half
  | native_vector_width_int
  | native_vector_width_long
  | native_vector_width_short
  | max_clock_speed
  | max_malloc_size
  | address_bits
  | max_read_image_args
  | max_write_image_args
  | image2d_max_width
  | image2d_max_height
  | image3d_max_width
  | image3d_max_height
  | image3d_max_depth
  | image_max_buffer_size
  | image_max_array_size
  | max_samplers
  | max_parameter_size
  | mem_base_addr_align
  | global_mem_cache_line_size
  | global_mem_cache_size
  | global_mem_size
  | max_constant_buffer_size
  | max_constant_args
  | local_mem_size
  | printf_buffer_size
  | partition_max_sub_devices
  | vendor_id
  | architecture
  | backend_id

text \<open>
  What the build fixes: whether \<^verbatim>\<open>HIPSYCL_WITH_SSCP_COMPILER\<close> is defined, and
  the integer value of the enumerator \<^verbatim>\<open>backend_id::hip\<close> (declared outside the
  sources).
\<close>

record build_config =
  HIPSYCL_WITH_SSCP_COMPILER :: bool
  backend_id_hip :: cpp_int

subsection \<open>\<^verbatim>\<open>hip_hardware_context::has\<close>\<close>

text \<open>One equation for each \<^verbatim>\<open>case\<close> label, in the order of the source; the last
  equation is the code after the \<^verbatim>\<open>switch\<close>.\<close>

fun has :: "build_config \<Rightarrow> hip_hardware_context \<Rightarrow> device_support_aspect enum_value \<Rightarrow> failure + bool" where
  "has cfg ctx (Enumerator emulated_local_memory) = Inr False"
| "has cfg ctx (Enumerator host_unified_memory) = Inr False"
| "has cfg ctx (Enumerator error_correction) = Inr False"
| "has cfg ctx (Enumerator global_mem_cache) = Inr True"
| "has cfg ctx (Enumerator global_mem_cache_read_only) = Inr False"
| "has cfg ctx (Enumerator global_mem_cache_read_write) = Inr True"
| "has cfg ctx (Enumerator images) = Inr False"
| "has cfg ctx (Enumerator little_endian) = Inr True"
| "has cfg ctx (Enumerator sub_group_independent_forward_progress) = Inr True"
| "has cfg ctx (Enumerator usm_device_allocations) = Inr True"
| "has cfg ctx (Enumerator usm_host_allocations) = Inr True"
| "has cfg ctx (Enumerator usm_atomic_host_allocations) = Inr False"
| "has cfg ctx (Enumerator usm_shared_allocations) = Inr True"
| "has cfg ctx (Enumerator usm_atomic_shared_allocations) = Inr False"
| "has cfg ctx (Enumerator usm_system_allocations) = Inr False"
| "has cfg ctx (Enumerator execution_timestamps) = Inr True"
| "has cfg ctx (Enumerator sscp_kernels) = Inr (HIPSYCL_WITH_SSCP_COMPILER cfg)"
| "has cfg ctx (Enumerator work_item_independent_forward_progress) = Inr False"
| "has cfg ctx _ = Inl terminate_called"

subsection \<open>\<^verbatim>\<open>hip_hardware_context::get_property\<close>\<close>

text \<open>
  The quotient of two \<^verbatim>\<open>int\<close> values, rounded towards zero. C++ leaves it
  undefined when the divisor is 0 and when the quotient is not an \<^verbatim>\<open>int\<close>.
\<close>

definition int_divide :: "cpp_int \<Rightarrow> cpp_int \<Rightarrow> failure + cpp_int" where
  "int_divide a b =
     (if b = 0 then Inl division_by_zero
      else if sint a = - (2 ^ 31) \<and> sint b = - 1 then Inl signed_overflow
      else Inr (word_of_int (sint a sdiv sint b)))"

text \<open>\<^verbatim>\<open>std::numeric_limits<std::size_t>::max()\<close>\<close>

definition size_t_max :: size_t where
  "size_t_max = 18446744073709551615"

text \<open>
  The scalar properties. An \<^verbatim>\<open>int\<close> that is returned as \<^verbatim>\<open>std::size_t\<close> is sign
  extended (\<open>scast\<close>); the product of the global sizes is taken in
  \<^verbatim>\<open>std::size_t\<close>, after both factors are converted.
\<close>

fun get_property :: "build_config \<Rightarrow> hip_hardware_context \<Rightarrow> device_uint_property enum_value \<Rightarrow> failure + size_t" where
  "get_property cfg ctx (Enumerator max_compute_units) =
     Inr (scast (multiProcessorCount (ctx_properties ctx)))"
| "get_property cfg ctx (Enumerator max_global_size0) =
     Inr (scast (at3 (maxThreadsDim (ctx_properties ctx)) 0) * scast (at3 (maxGridSize (ctx_properties ctx)) 0))"
| "get_property cfg ctx (Enumerator max_global_size1) =
     Inr (scast (at3 (maxThreadsDim (ctx_properties ctx)) 1) * scast (at3 (maxGridSize (ctx_properties ctx)) 1))"
| "get_property cfg ctx (Enumerator max_global_size2) =
     Inr (scast (at3 (maxThreadsDim (ctx_properties ctx)) 2) * scast (at3 (maxGridSize (ctx_properties ctx)) 2))"
| "get_property cfg ctx (Enumerator max_group_size0) =
     Inr (scast (at3 (maxThreadsDim (ctx_properties ctx)) 0))"
| "get_property cfg ctx (Enumerator max_group_size1) =
     Inr (scast (at3 (maxThreadsDim (ctx_properties ctx)) 1))"
| "get_property cfg ctx (Enumerator max_group_size2) =
     Inr (scast (at3 (maxThreadsDim (ctx_properties ctx)) 2))"
| "get_property cfg ctx (Enumerator max_group_size) =
     Inr (scast (maxThreadsPerBlock (ctx_properties ctx)))"
| "get_property cfg ctx (Enumerator max_num_sub_groups) =
     map_sum id scast (int_divide (maxThreadsPerBlock (ctx_properties ctx)) (warpSize (ctx_properties ctx)))"
| "get_property cfg ctx (Enumerator needs_dimension_flip) =
     Inr 1"
| "get_property cfg ctx (Enumerator preferred_vector_width_char) =
     Inr 4"
| "get_property cfg ctx (Enumerator preferred_vector_width_double) =
     Inr 1"
| "get_property cfg ctx (Enumerator preferred_vector_width_float) =
     Inr 1"
| "get_property cfg ctx (Enumerator preferred_vector_width_half) =
     Inr 2"
| "get_property cfg ctx (Enumerator preferred_vector_width_int) =
     Inr 1"
| "get_property cfg ctx (Enumerator preferred_vector_width_long) =
     Inr 1"
| "get_property cfg ctx (Enumerator preferred_vector_width_short) =
     Inr 2"
| "get_property cfg ctx (Enumerator native_vector_width_char) =
     Inr 4"
| "get_property cfg ctx (Enumerator native_vector_width_double) =
     Inr 1"
| "get_property cfg ctx (Enumerator native_vector_width_float) =
     Inr 1"
| "get_property cfg ctx (Enumerator native_vector_width_half) =
     Inr 2"
| "get_property cfg ctx (Enumerator native_vector_width_int) =
     Inr 1"
| "get_property cfg ctx (Enumerator native_vector_width_long) =
     Inr 1"
| "get_property cfg ctx (Enumerator native_vector_width_short) =
     Inr 2"
| "get_property cfg ctx (Enumerator max_clock_speed) =
     map_sum id scast (int_divide (clockRate (ctx_properties ctx)) 1000)"
| "get_property cfg ctx (Enumerator max_malloc_size) =
     Inr (totalGlobalMem (ctx_properties ctx))"
| "get_property cfg ctx (Enumerator address_bits) =
     Inr 64"
| "get_property cfg ctx (Enumerator max_read_image_args) =
     Inr 0"
| "get_property cfg ctx (Enumerator max_write_image_args) =
     Inr 0"
| "get_property cfg ctx (Enumerator image2d_max_width) =
     Inr 0"
| "get_property cfg ctx (Enumerator image2d_max_height) =
     Inr 0"
| "get_property cfg ctx (Enumerator image3d_max_width) =
     Inr 0"
| "get_property cfg ctx (Enumerator image3d_max_height) =
     Inr 0"
| "get_property cfg ctx (Enumerator image3d_max_depth) =
     Inr 0"
| "get_property cfg ctx (Enumerator image_max_buffer_size) =
     Inr 0"
| "get_property cfg ctx (Enumerator image_max_array_size) =
     Inr 0"
| "get_property cfg ctx (Enumerator max_samplers) =
     Inr 0"
| "get_property cfg ctx (Enumerator max_parameter_size) =
     Inr size_t_max"
| "get_property cfg ctx (Enumerator mem_base_addr_align) =
     Inr 8"
| "get_property cfg ctx (Enumerator global_mem_cache_line_size) =
     Inr 128"
| "get_property cfg ctx (Enumerator global_mem_cache_size) =
     Inr (scast (l2CacheSize (ctx_properties ctx)))"
| "get_property cfg ctx (Enumerator global_mem_size) =
     Inr (totalGlobalMem (ctx_properties ctx))"
| "get_property cfg ctx (Enumerator max_constant_buffer_size) =
     Inr (totalConstMem (ctx_properties ctx))"
| "get_property cfg ctx (Enumerator max_constant_args) =
     Inr size_t_max"
| "get_property cfg ctx (Enumerator local_mem_size) =
     Inr (sharedMemPerBlock (ctx_properties ctx))"
| "get_property cfg ctx (Enumerator printf_buffer_size) =
     Inr size_t_max"
| "get_property cfg ctx (Enumerator partition_max_sub_devices) =
     Inr 0"
| "get_property cfg ctx (Enumerator vendor_id) =
     Inr 1022"
| "get_property cfg ctx (Enumerator architecture) =
     Inr (scast (ctx_numeric_architecture ctx))"
| "get_property cfg ctx (Enumerator backend_id) =
     Inr (scast (backend_id_hip cfg))"
| "get_property cfg ctx _ = Inl terminate_called"

subsection \<open>The device manager\<close>

text \<open>The members \<^verbatim>\<open>_hw_platform\<close> and \<^verbatim>\<open>_devices\<close>.\<close>

record hip_hardware_manager =
  mgr_hw_platform :: hardware_platform
  mgr_devices :: "hip_hardware_context list"

text \<open>
  The loop \<^verbatim>\<open>for (int dev = 0; dev < num_devices; ++dev) _devices.emplace_back(dev)\<close>.
  An exception of the context's constructor leaves the loop.
\<close>

function emplace_devices ::
  "environment \<Rightarrow> int \<Rightarrow> int \<Rightarrow> hip_hardware_context list \<Rightarrow> error_channel
     \<Rightarrow> (failure + hip_hardware_context list) \<times> error_channel" where
  "emplace_devices env num_devices dev devices ch =
     (if dev < num_devices then
        (case hip_hardware_context_ctor env dev ch of
           (Inl exn, ch') \<Rightarrow> (Inl exn, ch')
         | (Inr ctx, ch') \<Rightarrow> emplace_devices env num_devices (dev + 1) (devices @ [ctx]) ch')
      else (Inr devices, ch))"
  by pat_completeness auto
termination
  by (relation "measure (\<lambda>(env, num_devices, dev, devices, ch). nat (num_devices - dev))") auto

declare emplace_devices.simps [simp del]

definition visibility_mask_message :: string where
  "visibility_mask_message =
     ''hip_hardware_manager: HIP backend does not support device visibility masks. Use HIP_VISIBILE_DEVICES instead.''"

definition device_count_message :: string where
  "device_count_message = ''hip_hardware_manager: Could not obtain number of devices''"

definition hip_hardware_manager_ctor ::
  "environment \<Rightarrow> hardware_platform \<Rightarrow> error_channel
     \<Rightarrow> (failure + hip_hardware_manager) \<times> error_channel" where
  "hip_hardware_manager_ctor env platform ch =
     (let ch = (if has_device_visibility_mask env
                then print_warning visibility_mask_message None ch
                else ch);
          (err, count) = hipGetDeviceCount env;
          (num_devices, ch) =
            (if err \<noteq> hipSuccess then
               (0, if err \<noteq> hipErrorNoDevice
                   then print_warning device_count_message (Some err) ch
                   else ch)
             else (sint count, ch))
      in case emplace_devices env num_devices 0 [] ch of
           (Inl exn, ch') \<Rightarrow> (Inl exn, ch')
         | (Inr devices, ch') \<Rightarrow>
             (Inr \<lparr> mgr_hw_platform = platform, mgr_devices = devices \<rparr>, ch'))"

definition get_num_devices :: "hip_hardware_manager \<Rightarrow> nat" where
  "get_num_devices m = length (mgr_devices m)"

text \<open>
  \<^verbatim>\<open>get_device\<close> returns a pointer into \<^verbatim>\<open>_devices\<close>: \<open>Some i\<close> is the address of
  slot \<open>i\<close>, \<open>None\<close> is \<^verbatim>\<open>nullptr\<close>. The manager is returned with the result,
  since the method is not \<^verbatim>\<open>const\<close>.
\<close>

type_synonym hardware_context_ptr = "nat option"

definition invalid_device_message :: string where
  "invalid_device_message = ''hip_hardware_manager: Attempt to access invalid device detected.''"

definition get_device ::
  "hip_hardware_manager \<Rightarrow> size_t \<Rightarrow> error_channel
     \<Rightarrow> hardware_context_ptr \<times> hip_hardware_manager \<times> error_channel" where
  "get_device m index ch =
     (if unat index \<ge> length (mgr_devices m)
      then (None, m, register_error invalid_device_message None ch)
      else (Some (unat index), m, ch))"

text \<open>What a pointer returned by \<^verbatim>\<open>get_device\<close> refers to; \<^verbatim>\<open>nullptr\<close> refers
  to nothing.\<close>

definition dereference ::
  "hip_hardware_manager \<Rightarrow> hardware_context_ptr \<Rightarrow> hip_hardware_context option" where
  "dereference m p =
     (case p of
        None \<Rightarrow> None
      | Some i \<Rightarrow> if i < length (mgr_devices m) then Some (mgr_devices m ! i) else None)"

text \<open>\<^verbatim>\<open>static_cast<int>(index)\<close> keeps the low 32 bits of the index.\<close>

definition get_device_id ::
  "hip_hardware_manager \<Rightarrow> size_t \<Rightarrow> error_channel \<Rightarrow> device_id \<times> error_channel" where
  "get_device_id m index ch =
     (let ch = (if unat index \<ge> length (mgr_devices m)
                then register_error invalid_device_message None ch
                else ch)
      in (\<lparr> backend = \<lparr> hw_platform = mgr_hw_platform m, sw_platform = hip \<rparr>,
            device_index = ucast index \<rparr>, ch))"

text \<open>The enumerator of the global size of dimension \<open>k\<close>.\<close>

definition max_global_size :: "nat \<Rightarrow> device_uint_property" where
  "max_global_size k =
     (if k = 0 then max_global_size0 else if k = 1 then max_global_size1 else max_global_size2)"

subsection \<open>Concrete devices and runtimes\<close>

text \<open>A device as the vendor runtime describes it, the context and the manager
  built for it, and runtimes with no device, with a failing count query and
  with a failing property query.\<close>

definition example_properties :: hipDeviceProp_t where
  "example_properties =
     \<lparr> name = ''AMD Instinct MI210'', gcnArchName = ''gfx90a:sramecc+:xnack-'',
       totalGlobalMem = 68702699520, sharedMemPerBlock = 65536,
       totalConstMem = 2147483647, warpSize = 64, maxThreadsPerBlock = 1024,
       maxThreadsDim = Array3 1024 1024 1024,
       maxGridSize = Array3 2147483647 65536 65536, clockRate = 1700000,
       multiProcessorCount = 104, l2CacheSize = 8388608, concurrentKernels = 1 \<rparr>"

definition example_context :: hip_hardware_context where
  "example_context =
     \<lparr> ctx_dev = 0, ctx_properties = example_properties,
       ctx_allocator = \<lparr> allocator_backend = \<lparr> hw_platform = rocm, sw_platform = hip \<rparr>,
                         allocator_dev = 0 \<rparr>,
       ctx_event_pool = \<lparr> event_pool_dev = 0 \<rparr>,
       ctx_numeric_architecture = 0x90a \<rparr>"

definition example_config :: build_config where
  "example_config = \<lparr> HIPSYCL_WITH_SSCP_COMPILER = True, backend_id_hip = 1 \<rparr>"

text \<open>A context whose record has a negative thread limit in dimension 0.\<close>

definition negative_limit_context :: hip_hardware_context where
  "negative_limit_context =
     example_context \<lparr> ctx_properties :=
       example_properties \<lparr> maxThreadsDim := Array3 (- 1) 1024 1024,
                              maxGridSize := Array3 2 65536 65536 \<rparr> \<rparr>"

definition example_manager :: hip_hardware_manager where
  "example_manager = \<lparr> mgr_hw_platform = rocm, mgr_devices = [example_context] \<rparr>"

definition empty_manager :: hip_hardware_manager where
  "empty_manager = \<lparr> mgr_hw_platform = rocm, mgr_devices = [] \<rparr>"

definition one_device_env :: environment where
  "one_device_env =
     \<lparr> has_device_visibility_mask = False, hipGetDeviceCount = (hipSuccess, 1),
       hipGetDeviceProperties = (\<lambda>dev. Inr example_properties) \<rparr>"

definition no_device_env :: environment where
  "no_device_env =
     \<lparr> has_device_visibility_mask = False, hipGetDeviceCount = (hipErrorNoDevice, 0),
       hipGetDeviceProperties = (\<lambda>dev. Inl hipErrorNoDevice) \<rparr>"

definition masked_no_device_env :: environment where
  "masked_no_device_env = no_device_env \<lparr> has_device_visibility_mask := True \<rparr>"

definition failing_count_env :: environment where
  "failing_count_env = no_device_env \<lparr> hipGetDeviceCount := (hipErrorOther 3, 0) \<rparr>"

definition failing_properties_env :: environment where
  "failing_properties_env =
     one_device_env \<lparr> hipGetDeviceProperties := (\<lambda>dev. Inl (hipErrorOther 101)) \<rparr>"

section \<open>The architecture-string parser\<close>

lemma string_find_zero: "string_find s p = Some 0 \<longleftrightarrow> take (length p) s = p"
  by (cases s) auto

lemma string_find_colon:
  "(case string_find s '':'' of Some k \<Rightarrow> take k s | None \<Rightarrow> s) =
   takeWhile (\<lambda>c. c \<noteq> CHR '':'') s"
  by (induction s) (auto split: option.splits)

lemma all_xdigit_iff: "all_xdigit s \<longleftrightarrow> (\<forall>c\<in>set s. isxdigit c)"
  by (induction s) auto

lemma isxdigit_cases:
  "isxdigit c \<Longrightarrow>
   \<not> isspace c \<and> c \<noteq> CHR ''-'' \<and> c \<noteq> CHR ''+'' \<and> c \<noteq> CHR ''x'' \<and> c \<noteq> CHR ''X'' \<and>
   0 \<le> xdigit_value c"
  by (auto simp: isxdigit_def isspace_def xdigit_value_def)

lemma hex_value_nonneg:
  "0 \<le> acc \<Longrightarrow> \<forall>c\<in>set s. isxdigit c \<Longrightarrow> 0 \<le> hex_value acc s"
  by (induction s arbitrary: acc) (auto simp: isxdigit_cases)

lemma strip_0x_xdigits: "\<forall>c\<in>set s. isxdigit c \<Longrightarrow> strip_0x s = s"
  by (auto simp: strip_0x_def isxdigit_cases split: list.splits)

text \<open>On a string of hexadecimal digits \<^verbatim>\<open>std::stoi\<close> has nothing to skip: it
  throws on the empty string and on a value above \<^verbatim>\<open>INT_MAX\<close>.\<close>

lemma stoi16_all_xdigit:
  assumes "all_xdigit s"
  shows "stoi16 s =
     (if s = [] then Inl invalid_argument
      else if 2 ^ 31 - 1 < hex_value 0 s then Inl out_of_range
      else Inr (word_of_int (hex_value 0 s)))"
proof (cases s)
  case Nil
  then show ?thesis by (simp add: stoi16_def strip_sign_def strip_0x_def)
next
  case (Cons c cs)
  from assms have xs: "\<forall>c\<in>set s. isxdigit c" by (simp add: all_xdigit_iff)
  with Cons have c: "isxdigit c" by simp
  have 1: "dropWhile isspace s = s" using Cons c by (simp add: isxdigit_cases)
  have 2: "strip_sign s = (False, s)" using Cons c by (simp add: strip_sign_def isxdigit_cases)
  have 3: "takeWhile isxdigit (strip_0x s) = s" using xs by (simp add: strip_0x_xdigits)
  have 4: "0 \<le> hex_value 0 s" using xs by (simp add: hex_value_nonneg)
  have "- (2 ^ 31) \<le> (0::int)" by simp
  with 4 have 5: "\<not> hex_value 0 s < - (2 ^ 31)" by linarith
  have ne: "s \<noteq> []" using Cons by simp
  show ?thesis using ne 5 unfolding stoi16_def 1 2 by (simp add: 3 Let_def)
qed

text \<open>What the parser returns, for every string.\<close>

lemma device_arch_string_to_int_eq:
  "device_arch_string_to_int s =
     (if take 3 s \<noteq> ''gfx'' then Inr 0
      else let sub = takeWhile (\<lambda>c. c \<noteq> CHR '':'') (drop 3 s) in
        if \<not> (\<forall>c\<in>set sub. isxdigit c) then Inr 0
        else if sub = [] then Inl invalid_argument
        else if 2 ^ 31 - 1 < hex_value 0 sub then Inl out_of_range
        else Inr (word_of_int (hex_value 0 sub)))"
proof -
  have len: "length ''gfx'' = 3" by simp
  show ?thesis
    unfolding device_arch_string_to_int_def Let_def string_find_zero len string_find_colon
    by (simp add: stoi16_all_xdigit all_xdigit_iff)
qed

lemma device_arch_string_to_int_examples:
  "device_arch_string_to_int ''gfx908'' = Inr 0x908"
  "device_arch_string_to_int ''gfx90a:sramecc+:xnack-'' = Inr 0x90a"
  "device_arch_string_to_int ''notarch123'' = Inr 0"
  "device_arch_string_to_int [] = Inr 0"
  "device_arch_string_to_int ''gfx:sramecc+'' = Inl invalid_argument"
  "device_arch_string_to_int ''gfx80000000'' = Inl out_of_range"
  by (simp_all add: device_arch_string_to_int_eq isxdigit_def xdigit_value_def)

text \<open>
  Claim C1. The parser is said to return 0 for the string \<^verbatim>\<open>"gfx"\<close>, whose
  remainder after the prefix is empty. The loop over the remainder accepts the
  empty string, and \<^verbatim>\<open>std::stoi\<close> is called on it: the call ends with the
  exception \<^verbatim>\<open>std::invalid_argument\<close> and returns no integer.
\<close>

theorem device_arch_string_to_int_gfx_throws:
  "device_arch_string_to_int ''gfx'' = Inl invalid_argument"
  by (simp add: device_arch_string_to_int_def stoi16_def strip_sign_def strip_0x_def)

section \<open>Integer conversions\<close>

lemma uint_scast_64: "uint (scast (a :: cpp_int) :: size_t) = sint a mod 2 ^ 64"
  unfolding scast_eq uint_word_of_int by simp

lemma global_size_product:
  "uint (scast (a :: cpp_int) * scast (b :: cpp_int) :: size_t) = (sint a * sint b) mod 2 ^ 64"
  unfolding uint_word_ariths uint_scast_64 by (simp add: mod_mult_eq)

lemma global_size_exact:
  assumes "0 \<le> sint (a :: cpp_int)" "0 \<le> sint (b :: cpp_int)"
  shows "uint (scast a * scast b :: size_t) = sint a * sint b"
proof -
  have a: "sint a < 2 ^ 31" using sint_lt [of a] by simp
  have b: "sint b < 2 ^ 31" using sint_lt [of b] by simp
  have "sint a * sint b < 2 ^ 31 * 2 ^ 31"
    using assms a b by (intro mult_strict_mono) simp_all
  then have lt: "sint a * sint b < 2 ^ 64" by simp
  have "0 \<le> sint a * sint b" using assms by simp
  with lt show ?thesis by (simp add: global_size_product)
qed

lemma device_index_small:
  assumes "unat (index :: size_t) < 2 ^ 31"
  shows "sint (ucast index :: cpp_int) = int (unat index)"
proof -
  have "int (unat index) < int (2 ^ 31)" using assms by (simp only: of_nat_less_iff)
  then have u: "uint index < 2 ^ 31" by simp
  have "sint (ucast index :: cpp_int) = signed_take_bit 31 (uint index)"
    by (simp only: signed_ucast_eq) simp
  also have "\<dots> = uint index"
  proof (rule signed_take_bit_int_eq_self)
    have "(0::int) \<le> uint index" by simp
    then show "- (2 ^ 31) \<le> uint index" by (rule order_trans [rotated]) simp
    show "uint index < 2 ^ 31" by (rule u)
  qed
  finally show ?thesis by simp
qed

lemma sint_succ:
  assumes "sint (ck :: cpp_int) < 2 ^ 31 - 1"
  shows "sint (ck + 1) = sint ck + 1"
proof -
  have "- (2 ^ 31) \<le> sint ck" using sint_ge [of ck] by simp
  then have "signed_take_bit 31 (sint ck + 1) = sint ck + 1"
    using assms by (intro signed_take_bit_int_eq_self) simp_all
  then show ?thesis by (simp add: sint_word_ariths)
qed

section \<open>The device context\<close>

lemma ctor_dev:
  "hip_hardware_context_ctor env dev ch = (Inr ctx, ch1) \<Longrightarrow> ctx_dev ctx = dev"
  by (auto simp: hip_hardware_context_ctor_def Let_def split: sum.splits prod.splits)

text \<open>A failed property query leaves the zeroed record in the context, and the
  constructor returns.\<close>

lemma ctor_query_failed:
  "hipGetDeviceProperties env dev = Inl err \<Longrightarrow>
   \<exists>ctx ch'. hip_hardware_context_ctor env dev ch = (Inr ctx, ch') \<and>
     ctx_properties ctx = zeroed_properties"
  by (simp add: hip_hardware_context_ctor_def get_device_arch_def
      device_arch_string_to_int_eq zeroed_properties_def)

text \<open>An architecture name that the parser throws on ends the constructor.\<close>

lemma ctor_throws:
  "hipGetDeviceProperties env dev = Inr props \<Longrightarrow> gcnArchName props = ''gfx'' \<Longrightarrow>
   hip_hardware_context_ctor env dev ch = (Inl invalid_argument, ch)"
  by (simp add: hip_hardware_context_ctor_def get_device_arch_def
      device_arch_string_to_int_eq)

subsection \<open>Scalar properties\<close>

lemma get_property_total_except:
  assumes "p \<noteq> max_num_sub_groups"
  shows "\<exists>v. get_property cfg ctx (Enumerator p) = Inr v"
  using assms by (cases p) (simp_all add: int_divide_def)

lemma get_property_sub_groups_total:
  assumes "warpSize (ctx_properties ctx) \<noteq> 0"
    and "\<not> (sint (maxThreadsPerBlock (ctx_properties ctx)) = - (2 ^ 31) \<and>
            sint (warpSize (ctx_properties ctx)) = - 1)"
  shows "\<exists>v. get_property cfg ctx (Enumerator max_num_sub_groups) = Inr v"
  using assms by (simp add: int_divide_def)

lemma get_property_unsupported:
  "p \<in> {max_read_image_args, max_write_image_args, image2d_max_width, image2d_max_height,
        image3d_max_width, image3d_max_height, image3d_max_depth, image_max_buffer_size,
        image_max_array_size, max_samplers} \<Longrightarrow>
   get_property cfg ctx (Enumerator p) = Inr 0"
  by auto

text \<open>
  Claim C2. \<^verbatim>\<open>get_property\<close> is said to return an unsigned integer for every
  enumerator on every constructed context, also on one whose property query
  failed and whose record is zeroed. On such a context the property
  \<^verbatim>\<open>max_num_sub_groups\<close> divides \<^verbatim>\<open>maxThreadsPerBlock\<close> by a \<^verbatim>\<open>warpSize\<close> of 0: the
  call ends in a division by zero and returns nothing.
\<close>

theorem get_property_max_num_sub_groups_after_failed_query:
  "(case fst (hip_hardware_context_ctor failing_properties_env 0 []) of
      Inr ctx \<Rightarrow> get_property cfg ctx (Enumerator max_num_sub_groups) = Inl division_by_zero
    | Inl exn \<Rightarrow> False)"
  by (simp add: hip_hardware_context_ctor_def failing_properties_env_def one_device_env_def
      get_device_arch_def device_arch_string_to_int_eq zeroed_properties_def int_divide_def)

text \<open>
  Claim C10. For each of the element types char, double, float, half, int, long
  and short the preferred and the native vector width are the same constant on
  every context: 4 for char, 2 for short and half, 1 for int, long, float and
  double.
\<close>

theorem preferred_native_vector_widths:
  "get_property cfg ctx (Enumerator preferred_vector_width_char) = Inr 4 \<and>
   get_property cfg ctx (Enumerator native_vector_width_char) = Inr 4 \<and>
   get_property cfg ctx (Enumerator preferred_vector_width_double) = Inr 1 \<and>
   get_property cfg ctx (Enumerator native_vector_width_double) = Inr 1 \<and>
   get_property cfg ctx (Enumerator preferred_vector_width_float) = Inr 1 \<and>
   get_property cfg ctx (Enumerator native_vector_width_float) = Inr 1 \<and>
   get_property cfg ctx (Enumerator preferred_vector_width_half) = Inr 2 \<and>
   get_property cfg ctx (Enumerator native_vector_width_half) = Inr 2 \<and>
   get_property cfg ctx (Enumerator preferred_vector_width_int) = Inr 1 \<and>
   get_property cfg ctx (Enumerator native_vector_width_int) = Inr 1 \<and>
   get_property cfg ctx (Enumerator preferred_vector_width_long) = Inr 1 \<and>
   get_property cfg ctx (Enumerator native_vector_width_long) = Inr 1 \<and>
   get_property cfg ctx (Enumerator preferred_vector_width_short) = Inr 2 \<and>
   get_property cfg ctx (Enumerator native_vector_width_short) = Inr 2"
  by simp

text \<open>
  Claim C9, as stated: for each dimension the property \<^verbatim>\<open>max_global_size\<close>\<open>k\<close>
  returns the exact mathematical product of \<^verbatim>\<open>maxThreadsDim[k]\<close> and
  \<^verbatim>\<open>maxGridSize[k]\<close>. Both fields are \<^verbatim>\<open>int\<close>, and both are converted to the
  unsigned type before the multiplication: with the limits \<open>- 1\<close> and 2 in
  dimension 0 the mathematical product is \<open>- 2\<close>, and the property returns
  \<open>2 ^ 64 - 2\<close>.
\<close>

theorem max_global_size_negative_limit:
  "sint (at3 (maxThreadsDim (ctx_properties negative_limit_context)) 0) *
   sint (at3 (maxGridSize (ctx_properties negative_limit_context)) 0) = - 2 \<and>
   get_property example_config negative_limit_context (Enumerator max_global_size0) =
     Inr 18446744073709551614 \<and>
   uint (18446744073709551614 :: size_t) = 2 ^ 64 - 2"
  by (simp add: negative_limit_context_def)

text \<open>
  Claim C9, amended. For each dimension \<open>k\<close> of 0, 1 and 2 the property
  \<^verbatim>\<open>max_global_size\<close>\<open>k\<close> returns a value: the product of \<^verbatim>\<open>maxThreadsDim[k]\<close>
  and \<^verbatim>\<open>maxGridSize[k]\<close> taken in the 64-bit unsigned type, that is modulo
  \<open>2 ^ 64\<close>, so that no \<^verbatim>\<open>int\<close> multiplication can overflow. For limits that
  are not negative it is the exact mathematical product.
\<close>

theorem max_global_size_exact_product:
  assumes "k < 3"
  shows "\<exists>r. get_property cfg ctx (Enumerator (max_global_size k)) = Inr r \<and>
     uint r = (sint (at3 (maxThreadsDim (ctx_properties ctx)) k) *
               sint (at3 (maxGridSize (ctx_properties ctx)) k)) mod 2 ^ 64 \<and>
     (0 \<le> sint (at3 (maxThreadsDim (ctx_properties ctx)) k) \<and>
      0 \<le> sint (at3 (maxGridSize (ctx_properties ctx)) k) \<longrightarrow>
      uint r = sint (at3 (maxThreadsDim (ctx_properties ctx)) k) *
               sint (at3 (maxGridSize (ctx_properties ctx)) k))"
proof -
  let ?a = "at3 (maxThreadsDim (ctx_properties ctx)) k"
  let ?b = "at3 (maxGridSize (ctx_properties ctx)) k"
  from assms have "k = 0 \<or> k = 1 \<or> k = 2" by arith
  then have "get_property cfg ctx (Enumerator (max_global_size k)) = Inr (scast ?a * scast ?b)"
    by (auto simp: max_global_size_def)
  then show ?thesis
    using global_size_product [of ?a ?b] global_size_exact [of ?a ?b] by blast
qed

theorem max_global_size_exact_product_witness:
  "\<exists>r. get_property example_config example_context (Enumerator max_global_size0) = Inr r \<and>
     uint r = 1024 * 2147483647"
proof -
  have a: "at3 (maxThreadsDim (ctx_properties example_context)) 0 = 1024"
    and b: "at3 (maxGridSize (ctx_properties example_context)) 0 = 2147483647"
    by (simp_all add: example_context_def example_properties_def)
  have k: "(0::nat) < 3" by simp
  from max_global_size_exact_product [OF k, of example_config example_context]
  show ?thesis unfolding a b by (simp add: max_global_size_def)
qed

subsection \<open>Aspects\<close>

text \<open>
  Claim C4. For every enumerator of the aspect enumeration \<^verbatim>\<open>has\<close> returns a
  boolean; the answer does not depend on the context, so that a second call
  with the same aspect gives the same boolean; and the terminating branch is
  taken exactly for the values that no enumerator has.
\<close>

theorem has_total_deterministic:
  "(\<exists>b. has cfg ctx (Enumerator aspect) = Inr b) \<and>
   has cfg ctx (Enumerator aspect) = has cfg ctx' (Enumerator aspect) \<and>
   (has cfg ctx v = Inl terminate_called \<longleftrightarrow> (\<exists>n. v = Unnamed n))"
proof -
  have 1: "\<exists>b. has cfg ctx (Enumerator aspect) = Inr b"
    by (cases aspect) auto
  have 2: "has cfg ctx (Enumerator aspect) = has cfg ctx' (Enumerator aspect)"
    by (cases aspect) simp_all
  have 3: "has cfg ctx v = Inl terminate_called \<longleftrightarrow> (\<exists>n. v = Unnamed n)"
  proof (cases v)
    case (Enumerator a)
    then show ?thesis by (cases a) simp_all
  next
    case (Unnamed n)
    then show ?thesis by simp
  qed
  from 1 2 3 show ?thesis by blast
qed

subsection \<open>Concurrency\<close>

text \<open>
  Claim C7. \<^verbatim>\<open>get_max_kernel_concurrency\<close> is 1 plus the flag
  \<^verbatim>\<open>concurrentKernels\<close> of the property record: 1 when the flag is 0, 2 when
  it is 1, and one more than the flag for every value of the flag from 0 up to
  (and not including) the largest \<^verbatim>\<open>int\<close>.
\<close>

theorem get_max_kernel_concurrency_flag:
  "(concurrentKernels (ctx_properties ctx) = 0 \<longrightarrow> get_max_kernel_concurrency ctx = Inr 1) \<and>
   (concurrentKernels (ctx_properties ctx) = 1 \<longrightarrow> get_max_kernel_concurrency ctx = Inr 2) \<and>
   (0 \<le> sint (concurrentKernels (ctx_properties ctx)) \<and>
    sint (concurrentKernels (ctx_properties ctx)) < 2 ^ 31 - 1 \<longrightarrow>
      (\<exists>r. get_max_kernel_concurrency ctx = Inr r \<and>
           uint r = 1 + sint (concurrentKernels (ctx_properties ctx))))"
proof -
  let ?ck = "concurrentKernels (ctx_properties ctx)"
  have general: "\<exists>r. get_max_kernel_concurrency ctx = Inr r \<and> uint r = 1 + sint ?ck"
    if nonneg: "0 \<le> sint ?ck" and below: "sint ?ck < 2 ^ 31 - 1"
  proof -
    have s: "sint (?ck + 1) = sint ?ck + 1" using below by (rule sint_succ)
    have "sint ?ck + 1 < 2 ^ 64" using below by simp
    then have "(sint ?ck + 1) mod 2 ^ 64 = sint ?ck + 1" using nonneg by simp
    then have "uint (scast (?ck + 1) :: size_t) = 1 + sint ?ck"
      unfolding uint_scast_64 s by simp
    moreover have "get_max_kernel_concurrency ctx = Inr (scast (?ck + 1))"
      using below by (simp add: get_max_kernel_concurrency_def)
    ultimately show ?thesis by blast
  qed
  have zero: "?ck = 0 \<Longrightarrow> get_max_kernel_concurrency ctx = Inr 1"
    by (simp add: get_max_kernel_concurrency_def)
  have one: "?ck = 1 \<Longrightarrow> get_max_kernel_concurrency ctx = Inr 2"
    by (simp add: get_max_kernel_concurrency_def)
  from general zero one show ?thesis by blast
qed

theorem get_max_kernel_concurrency_flag_witness:
  "get_max_kernel_concurrency (example_context \<lparr> ctx_properties := zeroed_properties \<rparr>) = Inr 1 \<and>
   get_max_kernel_concurrency example_context = Inr 2"
proof -
  have 0: "concurrentKernels (ctx_properties (example_context \<lparr> ctx_properties := zeroed_properties \<rparr>)) = 0"
    by (simp add: zeroed_properties_def)
  have 1: "concurrentKernels (ctx_properties example_context) = 1"
    by (simp add: example_context_def example_properties_def)
  from get_max_kernel_concurrency_flag [of "example_context \<lparr> ctx_properties := zeroed_properties \<rparr>"]
    get_max_kernel_concurrency_flag [of example_context] 0 1
  show ?thesis by blast
qed

text \<open>
  Claim C8. \<^verbatim>\<open>get_max_memcpy_concurrency\<close> returns what
  \<^verbatim>\<open>get_max_kernel_concurrency\<close> returns, on every context.
\<close>

theorem get_max_memcpy_concurrency_eq:
  "get_max_memcpy_concurrency ctx = get_max_kernel_concurrency ctx"
  by (simp add: get_max_memcpy_concurrency_def)

section \<open>The device manager\<close>

text \<open>The loop adds one context for each index from \<open>dev\<close> below \<open>n\<close>, in order,
  when it returns.\<close>

lemma emplace_devices_result:
  "emplace_devices env n dev devices ch = (Inr out, ch') \<Longrightarrow>
   \<exists>ctxs. out = devices @ ctxs \<and> map ctx_dev ctxs = [dev..n - 1]"
proof (induction env n dev devices ch rule: emplace_devices.induct)
  case (1 env n dev devices ch)
  note unfold = emplace_devices.simps [of env n dev devices ch]
  show ?case
  proof (cases "dev < n")
    case False
    with "1.prems" show ?thesis by (simp add: unfold)
  next
    case True
    obtain r ch1 where c: "hip_hardware_context_ctor env dev ch = (r, ch1)"
      by (cases "hip_hardware_context_ctor env dev ch")
    show ?thesis
    proof (cases r)
      case (Inl exn)
      with "1.prems" True c show ?thesis by (simp add: unfold)
    next
      case (Inr ctx)
      with "1.prems" True c
      have rec: "emplace_devices env n (dev + 1) (devices @ [ctx]) ch1 = (Inr out, ch')"
        by (simp add: unfold)
      from "1.IH" [OF True c [symmetric] Inr rec]
      obtain ctxs where o: "out = (devices @ [ctx]) @ ctxs"
        and m: "map ctx_dev ctxs = [dev + 1..n - 1]"
        by blast
      have d: "ctx_dev ctx = dev" using c Inr by (simp add: ctor_dev)
      have u: "[dev..n - 1] = dev # [dev + 1..n - 1]" using True by (simp add: upto_rec1)
      have "out = devices @ (ctx # ctxs)" using o by simp
      moreover have "map ctx_dev (ctx # ctxs) = [dev..n - 1]" using m d u by simp
      ultimately show ?thesis by blast
    qed
  qed
qed

text \<open>The loop returns when the constructor of every context returns.\<close>

lemma emplace_devices_returns:
  "\<forall>d. dev \<le> d \<and> d < n \<longrightarrow> (\<forall>c. \<exists>ctx. fst (hip_hardware_context_ctor env d c) = Inr ctx) \<Longrightarrow>
   \<exists>out ch'. emplace_devices env n dev devices ch = (Inr out, ch')"
proof (induction env n dev devices ch rule: emplace_devices.induct)
  case (1 env n dev devices ch)
  note unfold = emplace_devices.simps [of env n dev devices ch]
  show ?case
  proof (cases "dev < n")
    case False
    then show ?thesis by (simp add: unfold)
  next
    case True
    with "1.prems" obtain ctx where "fst (hip_hardware_context_ctor env dev ch) = Inr ctx"
      by (meson order_refl)
    then obtain ch1 where c: "hip_hardware_context_ctor env dev ch = (Inr ctx, ch1)"
      by (cases "hip_hardware_context_ctor env dev ch") simp
    have "\<forall>d. dev + 1 \<le> d \<and> d < n \<longrightarrow>
            (\<forall>c. \<exists>ctx. fst (hip_hardware_context_ctor env d c) = Inr ctx)"
      using "1.prems" by simp
    from "1.IH" [OF True c [symmetric] refl this]
    show ?thesis using True c by (simp add: unfold)
  qed
qed

lemma emplace_devices_none:
  "n \<le> dev \<Longrightarrow> emplace_devices env n dev devices ch = (Inr devices, ch)"
  by (simp add: emplace_devices.simps [of env n dev devices ch])

text \<open>The constructor of the manager when the count query fails: no device, the
  warning about the visibility mask when the mask is set, and the warning
  about the count unless the status is \<^verbatim>\<open>hipErrorNoDevice\<close>.\<close>

lemma ctor_count_failed:
  assumes "hipGetDeviceCount env = (err, count)" "err \<noteq> hipSuccess"
  shows "hip_hardware_manager_ctor env platform ch =
     (Inr \<lparr> mgr_hw_platform = platform, mgr_devices = [] \<rparr>,
      ch @ (if has_device_visibility_mask env then [Warning visibility_mask_message None] else [])
         @ (if err \<noteq> hipErrorNoDevice then [Warning device_count_message (Some err)] else []))"
  using assms
  by (simp add: hip_hardware_manager_ctor_def print_warning_def emplace_devices_none)

text \<open>The constructor when the count query succeeds: it runs the loop up to the
  count.\<close>

lemma ctor_count_succeeded:
  assumes "hipGetDeviceCount env = (hipSuccess, count)"
  shows "hip_hardware_manager_ctor env platform ch =
     (case emplace_devices env (sint count) 0 []
             (if has_device_visibility_mask env
              then ch @ [Warning visibility_mask_message None] else ch) of
        (Inl exn, ch') \<Rightarrow> (Inl exn, ch')
      | (Inr devices, ch') \<Rightarrow>
          (Inr \<lparr> mgr_hw_platform = platform, mgr_devices = devices \<rparr>, ch'))"
  using assms by (simp add: hip_hardware_manager_ctor_def print_warning_def)

lemma length_upto_from_0: "length [0..n - 1] = nat n"
  by simp

text \<open>A manager that was constructed has the platform it was given and fewer
  than \<open>2 ^ 31\<close> devices, since the count is an \<^verbatim>\<open>int\<close>.\<close>

lemma ctor_manager_bounds:
  assumes "hip_hardware_manager_ctor env platform ch0 = (Inr m, ch1)"
  shows "mgr_hw_platform m = platform \<and> get_num_devices m < 2 ^ 31"
proof -
  obtain err count where q: "hipGetDeviceCount env = (err, count)"
    by (cases "hipGetDeviceCount env")
  show ?thesis
  proof (cases "err = hipSuccess")
    case False
    with q assms show ?thesis
      by (auto simp: ctor_count_failed get_num_devices_def)
  next
    case True
    let ?ch = "if has_device_visibility_mask env
               then ch0 @ [Warning visibility_mask_message None] else ch0"
    obtain r ch' where e: "emplace_devices env (sint count) 0 [] ?ch = (r, ch')"
      by (cases "emplace_devices env (sint count) 0 [] ?ch")
    from assms q True e obtain devices where r: "r = Inr devices"
      and m: "m = \<lparr> mgr_hw_platform = platform, mgr_devices = devices \<rparr>"
      by (cases r) (auto simp: ctor_count_succeeded)
    from emplace_devices_result [OF e [unfolded r]]
    have "map ctx_dev devices = [0..sint count - 1]" by simp
    then have "length devices = length [0..sint count - 1]" by (metis length_map)
    then have len: "length devices = nat (sint count)" by (simp only: length_upto_from_0)
    have "sint count < 2 ^ 31" using sint_lt [of count] by simp
    then have "nat (sint count) < 2 ^ 31" by simp
    with len m show ?thesis by (simp add: get_num_devices_def)
  qed
qed

lemma hex_value_90a: "hex_value 0 ''90a'' = 2314"
  by (simp add: xdigit_value_def)

lemma one_device_context:
  "hip_hardware_context_ctor one_device_env 0 ch = (Inr example_context, ch)"
  by (simp add: hip_hardware_context_ctor_def one_device_env_def example_context_def
      example_properties_def get_device_arch_def device_arch_string_to_int_eq isxdigit_def
      hex_value_90a del: hex_value.simps)

lemma one_device_manager:
  "hip_hardware_manager_ctor one_device_env rocm [] = (Inr example_manager, [])"
proof -
  have q: "hipGetDeviceCount one_device_env = (hipSuccess, 1)"
    and v: "\<not> has_device_visibility_mask one_device_env"
    by (simp_all add: one_device_env_def)
  have "emplace_devices one_device_env 1 0 [] [] = (Inr [example_context], [])"
    by (simp add: emplace_devices.simps [of one_device_env 1 0]
        emplace_devices.simps [of one_device_env 1 1] one_device_context)
  then show ?thesis
    by (simp add: ctor_count_succeeded [OF q] v example_manager_def)
qed

text \<open>
  Claim C3, as stated: when the count query returns "no device" the manager is
  constructed with no device and no diagnostic is emitted. With the device
  visibility mask set, the constructor has printed its warning about the mask
  before it asks for the count.
\<close>

theorem no_device_with_visibility_mask_warns:
  "hipGetDeviceCount masked_no_device_env = (hipErrorNoDevice, 0) \<and>
   hip_hardware_manager_ctor masked_no_device_env rocm [] =
     (Inr empty_manager, [Warning visibility_mask_message None]) \<and>
   snd (hip_hardware_manager_ctor masked_no_device_env rocm []) \<noteq> []"
proof -
  have q: "hipGetDeviceCount masked_no_device_env = (hipErrorNoDevice, 0)"
    and v: "has_device_visibility_mask masked_no_device_env"
    by (simp_all add: masked_no_device_env_def no_device_env_def)
  have ne: "hipErrorNoDevice \<noteq> hipSuccess" by simp
  show ?thesis
    by (simp add: ctor_count_failed [OF q ne] v q empty_manager_def)
qed

text \<open>
  Claim C3, amended. The construction of the manager returns a manager in each
  of these cases. When the count query returns "no device" the manager has no
  device, and no diagnostic is emitted provided that the visibility-mask
  warning condition does not hold. When the query fails with another status
  the manager has no device, and exactly one diagnostic is emitted under the
  same proviso. When the query succeeds with count \<open>n\<close> and the constructor of
  each of the \<open>n\<close> contexts returns, the manager has exactly \<open>n\<close> contexts,
  one for each index from 0 below \<open>n\<close>, in order.
\<close>

theorem hip_hardware_manager_ctor_cases:
  assumes "hipGetDeviceCount env = (err, count)"
  shows
    "(err = hipErrorNoDevice \<and> \<not> has_device_visibility_mask env \<longrightarrow>
        hip_hardware_manager_ctor env platform ch =
          (Inr \<lparr> mgr_hw_platform = platform, mgr_devices = [] \<rparr>, ch)) \<and>
     (err \<noteq> hipSuccess \<and> err \<noteq> hipErrorNoDevice \<and> \<not> has_device_visibility_mask env \<longrightarrow>
        hip_hardware_manager_ctor env platform ch =
          (Inr \<lparr> mgr_hw_platform = platform, mgr_devices = [] \<rparr>,
           ch @ [Warning device_count_message (Some err)])) \<and>
     (err \<noteq> hipSuccess \<longrightarrow>
        (\<exists>m ch'. hip_hardware_manager_ctor env platform ch = (Inr m, ch') \<and>
           get_num_devices m = 0)) \<and>
     (err = hipSuccess \<and>
      (\<forall>d. 0 \<le> d \<and> d < sint count \<longrightarrow>
         (\<forall>c. \<exists>ctx. fst (hip_hardware_context_ctor env d c) = Inr ctx)) \<longrightarrow>
        (\<exists>m ch'. hip_hardware_manager_ctor env platform ch = (Inr m, ch') \<and>
           map ctx_dev (mgr_devices m) = [0..sint count - 1] \<and>
           get_num_devices m = nat (sint count)))"
proof -
  have failed: "hip_hardware_manager_ctor env platform ch =
      (Inr \<lparr> mgr_hw_platform = platform, mgr_devices = [] \<rparr>,
       ch @ (if has_device_visibility_mask env then [Warning visibility_mask_message None] else [])
          @ (if err \<noteq> hipErrorNoDevice then [Warning device_count_message (Some err)] else []))"
    if "err \<noteq> hipSuccess"
    using assms that by (rule ctor_count_failed)
  have a: "hip_hardware_manager_ctor env platform ch =
      (Inr \<lparr> mgr_hw_platform = platform, mgr_devices = [] \<rparr>, ch)"
    if "err = hipErrorNoDevice" "\<not> has_device_visibility_mask env"
    using failed that by simp
  have b: "hip_hardware_manager_ctor env platform ch =
      (Inr \<lparr> mgr_hw_platform = platform, mgr_devices = [] \<rparr>,
       ch @ [Warning device_count_message (Some err)])"
    if "err \<noteq> hipSuccess" "err \<noteq> hipErrorNoDevice" "\<not> has_device_visibility_mask env"
    using failed that by simp
  have c: "\<exists>m ch'. hip_hardware_manager_ctor env platform ch = (Inr m, ch') \<and>
      get_num_devices m = 0"
    if "err \<noteq> hipSuccess"
    using failed [OF that] by (simp add: get_num_devices_def)
  have d: "\<exists>m ch'. hip_hardware_manager_ctor env platform ch = (Inr m, ch') \<and>
      map ctx_dev (mgr_devices m) = [0..sint count - 1] \<and>
      get_num_devices m = nat (sint count)"
    if ok: "err = hipSuccess"
      and ctors: "\<forall>d. 0 \<le> d \<and> d < sint count \<longrightarrow>
         (\<forall>c. \<exists>ctx. fst (hip_hardware_context_ctor env d c) = Inr ctx)"
  proof -
    let ?ch = "if has_device_visibility_mask env
               then ch @ [Warning visibility_mask_message None] else ch"
    from emplace_devices_returns [OF ctors]
    obtain out ch' where e: "emplace_devices env (sint count) 0 [] ?ch = (Inr out, ch')"
      by blast
    from emplace_devices_result [OF e]
    have devs: "map ctx_dev out = [0..sint count - 1]" by simp
    then have "length out = length [0..sint count - 1]" by (metis length_map)
    then have len: "length out = nat (sint count)" by (simp only: length_upto_from_0)
    have "hip_hardware_manager_ctor env platform ch =
        (Inr \<lparr> mgr_hw_platform = platform, mgr_devices = out \<rparr>, ch')"
      using assms ok e by (simp add: ctor_count_succeeded)
    with devs len show ?thesis by (simp add: get_num_devices_def)
  qed
  from a b c d show ?thesis by blast
qed

theorem hip_hardware_manager_ctor_cases_witness:
  "hip_hardware_manager_ctor no_device_env rocm [] = (Inr empty_manager, []) \<and>
   hip_hardware_manager_ctor failing_count_env rocm [] =
     (Inr empty_manager, [Warning device_count_message (Some (hipErrorOther 3))]) \<and>
   \<not> isl (fst (hip_hardware_manager_ctor one_device_env rocm [])) \<and>
   map ctx_dev (mgr_devices (projr (fst (hip_hardware_manager_ctor one_device_env rocm [])))) = [0] \<and>
   get_num_devices (projr (fst (hip_hardware_manager_ctor one_device_env rocm []))) = 1"
proof -
  have q1: "hipGetDeviceCount no_device_env = (hipErrorNoDevice, 0)"
    and v1: "\<not> has_device_visibility_mask no_device_env"
    by (simp_all add: no_device_env_def)
  have q2: "hipGetDeviceCount failing_count_env = (hipErrorOther 3, 0)"
    and v2: "\<not> has_device_visibility_mask failing_count_env"
    by (simp_all add: failing_count_env_def no_device_env_def)
  have q3: "hipGetDeviceCount one_device_env = (hipSuccess, 1)"
    by (simp add: one_device_env_def)
  have c3: "\<forall>d. 0 \<le> d \<and> d < sint (1 :: cpp_int) \<longrightarrow>
      (\<forall>c. \<exists>ctx. fst (hip_hardware_context_ctor one_device_env d c) = Inr ctx)"
  proof (intro allI impI)
    fix d :: int and c
    assume "0 \<le> d \<and> d < sint (1 :: cpp_int)"
    then have "d = 0" by simp
    then show "\<exists>ctx. fst (hip_hardware_context_ctor one_device_env d c) = Inr ctx"
      by (simp add: one_device_context)
  qed
  have u: "[0..sint (1 :: cpp_int) - 1] = [0]" by (simp add: upto_rec1)
  from hip_hardware_manager_ctor_cases [OF q1, of rocm "[]"] v1
  have 1: "hip_hardware_manager_ctor no_device_env rocm [] = (Inr empty_manager, [])"
    by (simp add: empty_manager_def)
  from hip_hardware_manager_ctor_cases [OF q2, of rocm "[]"] v2
  have 2: "hip_hardware_manager_ctor failing_count_env rocm [] =
     (Inr empty_manager, [Warning device_count_message (Some (hipErrorOther 3))])"
    by (simp add: empty_manager_def)
  from hip_hardware_manager_ctor_cases [OF q3, of rocm "[]"] c3
  obtain m ch' where "hip_hardware_manager_ctor one_device_env rocm [] = (Inr m, ch')"
    and "map ctx_dev (mgr_devices m) = [0..sint (1 :: cpp_int) - 1]"
    and "get_num_devices m = nat (sint (1 :: cpp_int))"
    by blast
  then have 3: "\<not> isl (fst (hip_hardware_manager_ctor one_device_env rocm []))"
    "map ctx_dev (mgr_devices (projr (fst (hip_hardware_manager_ctor one_device_env rocm [])))) = [0]"
    "get_num_devices (projr (fst (hip_hardware_manager_ctor one_device_env rocm []))) = 1"
    using u by simp_all
  from 1 2 3 show ?thesis by blast
qed

text \<open>
  Claim C5. For an index at or beyond \<^verbatim>\<open>get_num_devices()\<close>, \<^verbatim>\<open>get_device\<close>
  registers the invalid-access error, returns the null pointer, which refers
  to no context, and leaves the manager as it was. For an index below
  \<^verbatim>\<open>get_num_devices()\<close> it returns the address of that slot, which refers to
  the context the manager owns there, leaves the manager as it was and
  registers no error.
\<close>

theorem get_device_bounds:
  "(get_num_devices m \<le> unat index \<longrightarrow>
      get_device m index ch = (None, m, ch @ [Error invalid_device_message None]) \<and>
      dereference m (fst (get_device m index ch)) = None) \<and>
   (unat index < get_num_devices m \<longrightarrow>
      get_device m index ch = (Some (unat index), m, ch) \<and>
      dereference m (fst (get_device m index ch)) = Some (mgr_devices m ! unat index))"
  by (simp add: get_device_def get_num_devices_def register_error_def dereference_def)

theorem get_device_bounds_witness:
  "get_device example_manager 1 [] =
     (None, example_manager, [Error invalid_device_message None]) \<and>
   get_device example_manager 0 [] = (Some 0, example_manager, []) \<and>
   dereference example_manager (fst (get_device example_manager 0 [])) = Some example_context"
proof -
  have n: "get_num_devices example_manager = 1"
    and d: "mgr_devices example_manager ! 0 = example_context"
    by (simp_all add: get_num_devices_def example_manager_def)
  from get_device_bounds [of example_manager 1 "[]"] n
  have 1: "get_device example_manager 1 [] =
      (None, example_manager, [Error invalid_device_message None])"
    by simp
  have "unat (0 :: size_t) < get_num_devices example_manager" by (simp add: n)
  with get_device_bounds [of example_manager 0 "[]"]
  have both: "get_device example_manager 0 [] = (Some (unat (0 :: size_t)), example_manager, []) \<and>
      dereference example_manager (fst (get_device example_manager 0 [])) =
        Some (mgr_devices example_manager ! unat (0 :: size_t))"
    by blast
  have 2: "get_device example_manager 0 [] = (Some 0, example_manager, [])"
    using both [THEN conjunct1] by simp
  have 3: "dereference example_manager (fst (get_device example_manager 0 [])) =
      Some (mgr_devices example_manager ! 0)"
    using both [THEN conjunct2] by simp
  from 1 2 3 show ?thesis by (simp only: d simp_thms)
qed

text \<open>
  Claim C6, as stated: for every index the identifier is composed of the
  platform tag, the HIP tag and that index. The index of the identifier is an
  \<^verbatim>\<open>int\<close>: for the index \<open>2 ^ 32\<close>, which \<^verbatim>\<open>std::size_t\<close> holds, the identifier
  carries the index 0.
\<close>

theorem get_device_id_truncates_index:
  "unat (4294967296 :: size_t) = 4294967296 \<and>
   sint (device_index (fst (get_device_id empty_manager 4294967296 []))) = 0"
  by (simp add: get_device_id_def)

text \<open>
  Claim C6, amended. For every index, \<^verbatim>\<open>get_device_id\<close> returns the identifier
  composed of the platform tag of the manager, the HIP tag and the index
  converted to \<^verbatim>\<open>int\<close>, which is that index whenever the index is below
  \<open>2 ^ 31\<close>; for an index out of bounds it also emits the invalid-access error.
  For every valid index of a manager that was constructed, the identifier
  carries exactly that index and the tags, and no error is emitted.
\<close>

theorem get_device_id_composed:
  "get_device_id m index ch =
     (\<lparr> backend = \<lparr> hw_platform = mgr_hw_platform m, sw_platform = hip \<rparr>,
        device_index = ucast index \<rparr>,
      if get_num_devices m \<le> unat index then ch @ [Error invalid_device_message None] else ch) \<and>
   (unat index < 2 ^ 31 \<longrightarrow>
      sint (device_index (fst (get_device_id m index ch))) = int (unat index)) \<and>
   (hip_hardware_manager_ctor env platform ch0 = (Inr m, ch1) \<and> unat index < get_num_devices m \<longrightarrow>
      backend (fst (get_device_id m index ch)) = \<lparr> hw_platform = platform, sw_platform = hip \<rparr> \<and>
      sint (device_index (fst (get_device_id m index ch))) = int (unat index) \<and>
      snd (get_device_id m index ch) = ch)"
proof -
  have 1: "get_device_id m index ch =
     (\<lparr> backend = \<lparr> hw_platform = mgr_hw_platform m, sw_platform = hip \<rparr>,
        device_index = ucast index \<rparr>,
      if get_num_devices m \<le> unat index then ch @ [Error invalid_device_message None] else ch)"
    by (simp add: get_device_id_def get_num_devices_def register_error_def)
  have 2: "sint (device_index (fst (get_device_id m index ch))) = int (unat index)"
    if "unat index < 2 ^ 31"
    using device_index_small [OF that] by (simp only: 1 fst_conv device_id.simps)
  have 3: "backend (fst (get_device_id m index ch)) = \<lparr> hw_platform = platform, sw_platform = hip \<rparr> \<and>
      sint (device_index (fst (get_device_id m index ch))) = int (unat index) \<and>
      snd (get_device_id m index ch) = ch"
    if made: "hip_hardware_manager_ctor env platform ch0 = (Inr m, ch1)"
      and valid: "unat index < get_num_devices m"
  proof -
    from ctor_manager_bounds [OF made]
    have p: "mgr_hw_platform m = platform" and n: "get_num_devices m < 2 ^ 31" by simp_all
    from valid n have "unat index < 2 ^ 31" by linarith
    from 2 [OF this] valid p show ?thesis by (simp add: 1)
  qed
  from 1 2 3 show ?thesis by blast
qed

theorem get_device_id_composed_witness:
  "get_device_id example_manager 0 [] =
     (\<lparr> backend = \<lparr> hw_platform = rocm, sw_platform = hip \<rparr>, device_index = 0 \<rparr>, []) \<and>
   get_device_id example_manager 7 [] =
     (\<lparr> backend = \<lparr> hw_platform = rocm, sw_platform = hip \<rparr>, device_index = 7 \<rparr>,
      [Error invalid_device_message None]) \<and>
   sint (device_index (fst (get_device_id example_manager 7 []))) = 7"
proof -
  have n: "get_num_devices example_manager = 1"
    and p: "mgr_hw_platform example_manager = rocm"
    by (simp_all add: get_num_devices_def example_manager_def)
  have valid: "unat (0 :: size_t) < get_num_devices example_manager" by (simp add: n)
  have small: "unat (7 :: size_t) < 2 ^ 31" by simp
  note made = one_device_manager
  from get_device_id_composed [of example_manager 0 "[]" one_device_env rocm "[]" "[]"]
    get_device_id_composed [of example_manager 7 "[]" one_device_env rocm "[]" "[]"]
    made valid small
  show ?thesis by (simp add: n p)
qed

end
